theory Spec2Isabelle
  imports Main
begin

section \<open>JSON documents and Go values\<close>

text \<open>
  The package \<^verbatim>\<open>godep\<close> (file \<^verbatim>\<open>godep/profile.go\<close>) declares the payload
  structs of the DEP profile endpoints and three methods of \<^verbatim>\<open>*Client\<close> that hand
  a verb, a path, a request value and a response pointer to the client's request executor
  \<^verbatim>\<open>c.do\<close>.

  Payloads are modelled as JSON documents (values, not bytes). A number keeps the text
  of its literal. The members of an object are kept in order, as \<^verbatim>\<open>encoding/json\<close>
  writes and reads them.
\<close>

datatype json =
    JNull
  | JBool bool
  | JNumber string
  | JString string
  | JArray "json list"
  | JObject "(string \<times> json) list"

text \<open>
  A Go slice \<^verbatim>\<open>[]string\<close> is \<open>None\<close> when it is \<^verbatim>\<open>nil\<close> and \<open>Some xs\<close>
  otherwise; a Go map \<^verbatim>\<open>map[string]string\<close> likewise. A pointer is \<open>None\<close> when
  it is \<^verbatim>\<open>nil\<close> and \<open>Some v\<close> when it points to \<open>v\<close>.
\<close>

type_synonym strings = "string list option"
type_synonym string_map = "(string \<rightharpoonup> string) option"

definition object_keys :: "json \<Rightarrow> string list" where
  "object_keys j = (case j of JObject fs \<Rightarrow> map fst fs | _ \<Rightarrow> [])"

definition object_field :: "json \<Rightarrow> string \<Rightarrow> json option" where
  "object_field j k = (case j of JObject fs \<Rightarrow> map_of fs k | _ \<Rightarrow> None)"

subsection \<open>Marshalling, as \<^verbatim>\<open>encoding/json\<close> does it from the struct tags\<close>

text \<open>
  A field without \<^verbatim>\<open>omitempty\<close> is always written: a string as a JSON string, a
  bool as a JSON bool, a slice as an array, or as \<^verbatim>\<open>null\<close> when it is nil. A field
  tagged \<^verbatim>\<open>omitempty\<close> is left out when it is false, the empty string, or a slice of
  length zero (nil or not).
\<close>

definition marshal_strings :: "strings \<Rightarrow> json" where
  "marshal_strings xs = (case xs of None \<Rightarrow> JNull | Some ys \<Rightarrow> JArray (map JString ys))"

definition field_string :: "string \<Rightarrow> string \<Rightarrow> (string \<times> json) list" where
  "field_string k s = [(k, JString s)]"

definition field_bool :: "string \<Rightarrow> bool \<Rightarrow> (string \<times> json) list" where
  "field_bool k b = [(k, JBool b)]"

definition field_strings :: "string \<Rightarrow> strings \<Rightarrow> (string \<times> json) list" where
  "field_strings k xs = [(k, marshal_strings xs)]"

definition omitempty_string :: "string \<Rightarrow> string \<Rightarrow> (string \<times> json) list" where
  "omitempty_string k s = (if length s = 0 then [] else [(k, JString s)])"

definition omitempty_bool :: "string \<Rightarrow> bool \<Rightarrow> (string \<times> json) list" where
  "omitempty_bool k b = (if b then [(k, JBool b)] else [])"

definition slice_len :: "strings \<Rightarrow> nat" where
  "slice_len xs = (case xs of None \<Rightarrow> 0 | Some ys \<Rightarrow> length ys)"

definition omitempty_strings :: "string \<Rightarrow> strings \<Rightarrow> (string \<times> json) list" where
  "omitempty_strings k xs = (if slice_len xs = 0 then [] else [(k, marshal_strings xs)])"

section \<open>The payload structs of \<^verbatim>\<open>profile.go\<close>\<close>

record Profile =
  ProfileName :: string
  URL :: string
  AllowPairing :: bool
  IsSupervised :: bool
  IsMultiUser :: bool
  IsMandatory :: bool
  AwaitDeviceConfigured :: bool
  IsMDMRemovable :: bool
  SupportPhoneNumber :: string
  AutoAdvanceSetup :: bool
  SupportEmailAddress :: string
  OrgMagic :: string
  AnchorCerts :: strings
  SupervisingHostCerts :: strings
  Department :: string
  Devices :: strings
  Language :: string
  Region :: string
  ConfigurationWebURL :: string
  SkipSetupItems :: strings
  ProfileUUID :: string

text \<open>The zero value of \<^verbatim>\<open>Profile\<close>: what \<^verbatim>\<open>Profile{}\<close> holds.\<close>

definition Profile_zero :: Profile where
  "Profile_zero =
     \<lparr>ProfileName = [], URL = [], AllowPairing = False, IsSupervised = False,
      IsMultiUser = False, IsMandatory = False, AwaitDeviceConfigured = False,
      IsMDMRemovable = False, SupportPhoneNumber = [], AutoAdvanceSetup = False,
      SupportEmailAddress = [], OrgMagic = [], AnchorCerts = None,
      SupervisingHostCerts = None, Department = [], Devices = None, Language = [],
      Region = [], ConfigurationWebURL = [], SkipSetupItems = None, ProfileUUID = []\<rparr>"

text \<open>The members \<^verbatim>\<open>json.Marshal\<close> writes for a \<^verbatim>\<open>Profile\<close>, in declaration order.\<close>

definition Profile_members :: "Profile \<Rightarrow> (string \<times> json) list" where
  "Profile_members p =
     field_string ''profile_name'' (ProfileName p) @
     field_string ''url'' (URL p) @
     omitempty_bool ''allow_pairing'' (AllowPairing p) @
     omitempty_bool ''is_supervised'' (IsSupervised p) @
     omitempty_bool ''is_multi_user'' (IsMultiUser p) @
     omitempty_bool ''is_mandatory'' (IsMandatory p) @
     omitempty_bool ''await_device_configured'' (AwaitDeviceConfigured p) @
     field_bool ''is_mdm_removable'' (IsMDMRemovable p) @
     omitempty_string ''support_phone_number'' (SupportPhoneNumber p) @
     omitempty_bool ''auto_advance_setup'' (AutoAdvanceSetup p) @
     omitempty_string ''support_email_address'' (SupportEmailAddress p) @
     field_string ''org_magic'' (OrgMagic p) @
     omitempty_strings ''anchor_certs'' (AnchorCerts p) @
     omitempty_strings ''supervising_host_certs'' (SupervisingHostCerts p) @
     omitempty_string ''department'' (Department p) @
     omitempty_strings ''devices'' (Devices p) @
     omitempty_string ''language'' (Language p) @
     omitempty_string ''region'' (Region p) @
     omitempty_string ''configuration_web_url'' (ConfigurationWebURL p) @
     omitempty_strings ''skip_setup_items'' (SkipSetupItems p) @
     omitempty_string ''profile_uuid'' (ProfileUUID p)"

definition marshal_Profile :: "Profile \<Rightarrow> json" where
  "marshal_Profile p = JObject (Profile_members p)"

text \<open>\<^verbatim>\<open>DefineProfile\<close> takes a \<^verbatim>\<open>*Profile\<close>; a nil pointer marshals to \<^verbatim>\<open>null\<close>.\<close>

definition marshal_Profile_ptr :: "Profile option \<Rightarrow> json" where
  "marshal_Profile_ptr p = (case p of None \<Rightarrow> JNull | Some v \<Rightarrow> marshal_Profile v)"

subsection \<open>Request and response structs of the three operations\<close>

text \<open>
  The anonymous request struct of \<^verbatim>\<open>AssignProfile\<close>:
  \<^verbatim>\<open>struct { ProfileUUID string `json:"profile_uuid"`; Devices []string `json:"devices"` }\<close>.
\<close>

record AssignProfile_req =
  req_ProfileUUID :: string
  req_Devices :: strings

definition marshal_AssignProfile_req :: "AssignProfile_req \<Rightarrow> json" where
  "marshal_AssignProfile_req r =
     JObject (field_string ''profile_uuid'' (req_ProfileUUID r) @
              field_strings ''devices'' (req_Devices r))"

text \<open>
  The anonymous request struct of \<^verbatim>\<open>RemoveProfile\<close>:
  \<^verbatim>\<open>struct { Devices []string `json:"devices"` }\<close>; its \<^verbatim>\<open>ProfileUUID\<close> field is
  commented out in the source.
\<close>

record RemoveProfile_req =
  rm_Devices :: strings

definition marshal_RemoveProfile_req :: "RemoveProfile_req \<Rightarrow> json" where
  "marshal_RemoveProfile_req r = JObject (field_strings ''devices'' (rm_Devices r))"

record ProfileResponse =
  resp_ProfileUUID :: string
  resp_Devices :: string_map

record DefineProfileResponse =
  def_ProfileUUID :: string
  def_Devices :: strings

record ClearProfileResponse =
  clr_Devices :: string_map

text \<open>What \<^verbatim>\<open>new(T)\<close> points to: the zero value of each response struct.\<close>

definition ProfileResponse_zero :: ProfileResponse where
  "ProfileResponse_zero = \<lparr>resp_ProfileUUID = [], resp_Devices = None\<rparr>"

definition DefineProfileResponse_zero :: DefineProfileResponse where
  "DefineProfileResponse_zero = \<lparr>def_ProfileUUID = [], def_Devices = None\<rparr>"

definition ClearProfileResponse_zero :: ClearProfileResponse where
  "ClearProfileResponse_zero = \<lparr>clr_Devices = None\<rparr>"

subsection \<open>Unmarshalling into the response structs\<close>

text \<open>
  \<^verbatim>\<open>json.Unmarshal\<close> into a value that already exists: a JSON string sets a string,
  \<^verbatim>\<open>null\<close> leaves a string as it is and sets a slice or a map to nil, an array fills
  a slice with new elements, an object adds its members to a map (a later member
  overwrites an earlier one of the same key), and a value of any other kind is an
  error (\<open>None\<close>). Members of an object that name no field are skipped. Member names
  are compared as they are written (the library also accepts a name that differs from
  the tag in letter case only; no statement below is about such a document).
\<close>

definition unmarshal_string :: "json \<Rightarrow> string \<Rightarrow> string option" where
  "unmarshal_string j old = (case j of JString s \<Rightarrow> Some s | JNull \<Rightarrow> Some old | _ \<Rightarrow> None)"

fun unmarshal_elems :: "json list \<Rightarrow> string list option" where
  "unmarshal_elems [] = Some []"
| "unmarshal_elems (j # js) =
     (case unmarshal_string j [] of
        None \<Rightarrow> None
      | Some s \<Rightarrow> (case unmarshal_elems js of None \<Rightarrow> None | Some ss \<Rightarrow> Some (s # ss)))"

definition unmarshal_strings :: "json \<Rightarrow> strings \<Rightarrow> strings option" where
  "unmarshal_strings j old =
     (case j of
        JArray js \<Rightarrow> map_option Some (unmarshal_elems js)
      | JNull \<Rightarrow> Some None
      | _ \<Rightarrow> None)"

fun unmarshal_entries :: "(string \<times> json) list \<Rightarrow> (string \<rightharpoonup> string) \<Rightarrow> (string \<rightharpoonup> string) option" where
  "unmarshal_entries [] m = Some m"
| "unmarshal_entries ((k, j) # fs) m =
     (case unmarshal_string j [] of
        None \<Rightarrow> None
      | Some s \<Rightarrow> unmarshal_entries fs (m(k \<mapsto> s)))"

definition unmarshal_string_map :: "json \<Rightarrow> string_map \<Rightarrow> string_map option" where
  "unmarshal_string_map j old =
     (case j of
        JObject fs \<Rightarrow>
          map_option Some (unmarshal_entries fs (case old of None \<Rightarrow> Map.empty | Some m \<Rightarrow> m))
      | JNull \<Rightarrow> Some None
      | _ \<Rightarrow> None)"

fun ProfileResponse_fields :: "(string \<times> json) list \<Rightarrow> ProfileResponse \<Rightarrow> ProfileResponse option" where
  "ProfileResponse_fields [] r = Some r"
| "ProfileResponse_fields ((k, j) # fs) r =
     (if k = ''profile_uuid'' then
        (case unmarshal_string j (resp_ProfileUUID r) of
           None \<Rightarrow> None
         | Some s \<Rightarrow> ProfileResponse_fields fs (r\<lparr>resp_ProfileUUID := s\<rparr>))
      else if k = ''devices'' then
        (case unmarshal_string_map j (resp_Devices r) of
           None \<Rightarrow> None
         | Some m \<Rightarrow> ProfileResponse_fields fs (r\<lparr>resp_Devices := m\<rparr>))
      else ProfileResponse_fields fs r)"

definition unmarshal_ProfileResponse :: "json \<Rightarrow> ProfileResponse \<Rightarrow> ProfileResponse option" where
  "unmarshal_ProfileResponse j r =
     (case j of JObject fs \<Rightarrow> ProfileResponse_fields fs r | JNull \<Rightarrow> Some r | _ \<Rightarrow> None)"

fun DefineProfileResponse_fields ::
  "(string \<times> json) list \<Rightarrow> DefineProfileResponse \<Rightarrow> DefineProfileResponse option" where
  "DefineProfileResponse_fields [] r = Some r"
| "DefineProfileResponse_fields ((k, j) # fs) r =
     (if k = ''profile_uuid'' then
        (case unmarshal_string j (def_ProfileUUID r) of
           None \<Rightarrow> None
         | Some s \<Rightarrow> DefineProfileResponse_fields fs (r\<lparr>def_ProfileUUID := s\<rparr>))
      else if k = ''devices'' then
        (case unmarshal_strings j (def_Devices r) of
           None \<Rightarrow> None
         | Some xs \<Rightarrow> DefineProfileResponse_fields fs (r\<lparr>def_Devices := xs\<rparr>))
      else DefineProfileResponse_fields fs r)"

definition unmarshal_DefineProfileResponse ::
  "json \<Rightarrow> DefineProfileResponse \<Rightarrow> DefineProfileResponse option" where
  "unmarshal_DefineProfileResponse j r =
     (case j of JObject fs \<Rightarrow> DefineProfileResponse_fields fs r | JNull \<Rightarrow> Some r | _ \<Rightarrow> None)"

fun ClearProfileResponse_fields ::
  "(string \<times> json) list \<Rightarrow> ClearProfileResponse \<Rightarrow> ClearProfileResponse option" where
  "ClearProfileResponse_fields [] r = Some r"
| "ClearProfileResponse_fields ((k, j) # fs) r =
     (if k = ''devices'' then
        (case unmarshal_string_map j (clr_Devices r) of
           None \<Rightarrow> None
         | Some m \<Rightarrow> ClearProfileResponse_fields fs (r\<lparr>clr_Devices := m\<rparr>))
      else ClearProfileResponse_fields fs r)"

definition unmarshal_ClearProfileResponse ::
  "json \<Rightarrow> ClearProfileResponse \<Rightarrow> ClearProfileResponse option" where
  "unmarshal_ClearProfileResponse j r =
     (case j of JObject fs \<Rightarrow> ClearProfileResponse_fields fs r | JNull \<Rightarrow> Some r | _ \<Rightarrow> None)"

section \<open>The three operations\<close>

text \<open>
  The verbs are the constants of \<^verbatim>\<open>net/http\<close>.
\<close>

definition MethodPost :: string where
  "MethodPost = ''POST''"

definition MethodPut :: string where
  "MethodPut = ''PUT''"

definition MethodDelete :: string where
  "MethodDelete = ''DELETE''"

text \<open>
  The method \<^verbatim>\<open>c.do(ctx, name, method, path, in, out) error\<close> of \<^verbatim>\<open>*Client\<close> is
  declared in another file of the package. The operations take it as a parameter: a
  function of the client \<open>c\<close>, the configuration name, the verb, the path, the request
  document (\<open>None\<close> for a nil \<^verbatim>\<open>in\<close>), and the response pointer \<^verbatim>\<open>out\<close>, given as
  the unmarshaller of its struct type and the value it points to. It returns the client
  after the call, the value \<^verbatim>\<open>out\<close> points to after the call, and the error
  (\<open>None\<close> for nil). The request value is marshalled where it is handed over, from the
  tags of its struct type. The context \<^verbatim>\<open>ctx\<close> carries cancellation only and is
  left out.

  Each operation builds its request value, allocates the zero response with
  \<^verbatim>\<open>new\<close>, and returns the pointer to it together with the error of \<^verbatim>\<open>c.do\<close>.
  The variadic \<^verbatim>\<open>serials ...string\<close> of \<^verbatim>\<open>AssignProfile\<close> is a slice, nil when the
  caller gives no serial; \<^verbatim>\<open>profile\<close> of \<^verbatim>\<open>DefineProfile\<close> is a pointer and may
  be nil.
\<close>

type_synonym ('c, 'r, 'e) executor =
  "'c \<Rightarrow> string \<Rightarrow> string \<Rightarrow> string \<Rightarrow> json option \<Rightarrow> (json \<Rightarrow> 'r \<Rightarrow> 'r option) \<Rightarrow> 'r
   \<Rightarrow> 'c \<times> 'r \<times> 'e option"

definition AssignProfile ::
  "('c, ProfileResponse, 'e) executor \<Rightarrow> 'c \<Rightarrow> string \<Rightarrow> string \<Rightarrow> strings
   \<Rightarrow> 'c \<times> ProfileResponse option \<times> 'e option" where
  "AssignProfile do c name uuid serials =
     (let req = \<lparr>req_ProfileUUID = uuid, req_Devices = serials\<rparr>;
          resp = ProfileResponse_zero
      in case do c name MethodPut ''/profile/devices'' (Some (marshal_AssignProfile_req req))
                unmarshal_ProfileResponse resp of
           (c', resp', err) \<Rightarrow> (c', Some resp', err))"

definition DefineProfile ::
  "('c, DefineProfileResponse, 'e) executor \<Rightarrow> 'c \<Rightarrow> string \<Rightarrow> Profile option
   \<Rightarrow> 'c \<times> DefineProfileResponse option \<times> 'e option" where
  "DefineProfile do c name profile =
     (let resp = DefineProfileResponse_zero
      in case do c name MethodPost ''/profile'' (Some (marshal_Profile_ptr profile))
                unmarshal_DefineProfileResponse resp of
           (c', resp', err) \<Rightarrow> (c', Some resp', err))"

definition RemoveProfile ::
  "('c, ClearProfileResponse, 'e) executor \<Rightarrow> 'c \<Rightarrow> string \<Rightarrow> strings
   \<Rightarrow> 'c \<times> ClearProfileResponse option \<times> 'e option" where
  "RemoveProfile do c name devices =
     (let req = \<lparr>rm_Devices = devices\<rparr>;
          resp = ClearProfileResponse_zero
      in case do c name MethodDelete ''/profile/devices'' (Some (marshal_RemoveProfile_req req))
                unmarshal_ClearProfileResponse resp of
           (c', resp', err) \<Rightarrow> (c', Some resp', err))"

subsection \<open>Observing the calls an operation makes\<close>

text \<open>
  To state which calls an operation makes whatever the executor does, an executor is
  wrapped so that it appends each call it receives to a log kept beside the client.
\<close>

record Call =
  call_name :: string
  call_method :: string
  call_path :: string
  call_body :: "json option"

definition spy :: "('c, 'r, 'e) executor \<Rightarrow> ('c \<times> Call list, 'r, 'e) executor" where
  "spy do = (\<lambda>(c, log) name method path body shape out.
     case do c name method path body shape out of
       (c', out', err) \<Rightarrow>
         ((c', log @ [\<lparr>call_name = name, call_method = method, call_path = path,
                       call_body = body\<rparr>]), out', err))"

definition calls :: "('c \<times> Call list) \<times> 'a \<Rightarrow> Call list" where
  "calls res = snd (fst res)"

section \<open>The request executor behind \<^verbatim>\<open>c.do\<close>\<close>

text \<open>
  The file that declares \<^verbatim>\<open>Client\<close> and \<^verbatim>\<open>c.do\<close> is not among the sources. The
  definitions of this section follow the specification's sections 3, 4, 6 and 7: the
  credential store adapter, the Session Manager, the Request Executor and the Response
  Decoder. Calls are sequential: one call runs from its first step to its last on a
  client state that it returns updated.
\<close>

text \<open>
  Modelled from the spec: the credentials of a configuration name and a session token,
  both opaque strings.
\<close>

type_synonym Credentials = string
type_synonym Token = string

text \<open>
  Modelled from the spec: the body of a response, which is either parseable as a JSON
  document or not (then it keeps its raw text).
\<close>

datatype payload = NotJSON string | JSON json

text \<open>
  Modelled from the spec: the error taxonomy of section 7. The errors made from a
  server response carry its status code and body.
\<close>

datatype error =
    ConfigNotFound
  | StoreError
  | AuthError
  | TransportError
  | ProtocolError
  | ValidationError nat payload
  | NotFoundError nat payload
  | ServerError nat payload
  | UnknownError nat payload

text \<open>
  Modelled from the spec: what the remote service answers to an authentication
  handshake (a bearer token, a rejection of the credentials, or nothing because the
  network failed) and to an operation request (nothing on a transport failure, else a
  status code and a body).
\<close>

datatype handshake_reply = Granted Token | Rejected | Unreachable

datatype reply = NoReply | Reply nat payload

text \<open>
  Modelled from the spec: the HTTP request the executor builds in steps 2 and 3: the
  method and path of the operation, the session token as authorization, the body.
\<close>

record Request =
  rq_method :: string
  rq_path :: string
  rq_token :: Token
  rq_body :: "json option"

text \<open>
  Modelled from the spec: the client with its collaborators. \<open>store_up\<close> says whether
  the credential store adapter answers; \<open>credentials\<close> is what its \<^verbatim>\<open>Get\<close> returns and
  \<open>sessions\<close> what \<^verbatim>\<open>GetSession\<close> and \<^verbatim>\<open>PutSession\<close> read and write, both keyed by
  configuration name. \<open>handshake n\<close> is the remote service's answer to the \<open>n\<close>-th
  handshake, \<open>remote n\<close> its answer to the \<open>n\<close>-th operation request. \<open>auth_marker\<close>
  is the service-defined marker of an authentication failure, which the specification
  leaves to configuration. \<open>handshakes\<close> counts the handshakes performed and \<open>sent\<close>
  lists the operation requests handed to the transport, oldest first.
\<close>

record Client =
  store_up :: bool
  credentials :: "string \<rightharpoonup> Credentials"
  sessions :: "string \<rightharpoonup> Token"
  handshake :: "nat \<Rightarrow> Credentials \<Rightarrow> handshake_reply"
  remote :: "nat \<Rightarrow> Request \<Rightarrow> reply"
  auth_marker :: "nat \<Rightarrow> payload \<Rightarrow> bool"
  handshakes :: nat
  sent :: "Request list"

text \<open>
  Modelled from the spec: \<^verbatim>\<open>EnsureSession(configName) -> (token, error)\<close> of the
  Session Manager (4.1). The cached token if there is one; otherwise the credentials
  are fetched (\<open>StoreError\<close> when the adapter is unavailable, \<open>ConfigNotFound\<close> when
  it has none for the name) and the handshake is performed: a granted token is cached
  and returned, rejected credentials are \<open>AuthError\<close>, a network failure is
  \<open>TransportError\<close>. Nothing is retried here.
\<close>

definition EnsureSession :: "Client \<Rightarrow> string \<Rightarrow> Client \<times> (error + Token)" where
  "EnsureSession c name =
     (case sessions c name of
        Some tok \<Rightarrow> (c, Inr tok)
      | None \<Rightarrow>
          if \<not> store_up c then (c, Inl StoreError)
          else (case credentials c name of
                  None \<Rightarrow> (c, Inl ConfigNotFound)
                | Some cr \<Rightarrow>
                    (let c' = c\<lparr>handshakes := Suc (handshakes c)\<rparr>
                     in case handshake c (handshakes c) cr of
                          Granted tok \<Rightarrow> (c'\<lparr>sessions := (sessions c)(name \<mapsto> tok)\<rparr>, Inr tok)
                        | Rejected \<Rightarrow> (c', Inl AuthError)
                        | Unreachable \<Rightarrow> (c', Inl TransportError))))"

text \<open>
  Modelled from the spec: \<^verbatim>\<open>Invalidate(configName)\<close> of the Session Manager (4.1),
  which drops the cached token of the name unconditionally.
\<close>

definition Invalidate :: "Client \<Rightarrow> string \<Rightarrow> Client" where
  "Invalidate c name = c\<lparr>sessions := (sessions c)(name := None)\<rparr>"

text \<open>
  Modelled from the spec: steps 1 to 4 of the Request Executor's algorithm (4.2). The
  token is obtained from the Session Manager, and a failure there is returned with no
  request sent; the request is built with the method and path exactly as given, the
  token and the body, and sent; a transport failure is \<open>TransportError\<close>, anything
  else is the response's status and body.
\<close>

definition attempt ::
  "Client \<Rightarrow> string \<Rightarrow> string \<Rightarrow> string \<Rightarrow> json option \<Rightarrow> Client \<times> (error + nat \<times> payload)" where
  "attempt c name method path body =
     (case EnsureSession c name of
        (c1, Inl e) \<Rightarrow> (c1, Inl e)
      | (c1, Inr tok) \<Rightarrow>
          (let rq = \<lparr>rq_method = method, rq_path = path, rq_token = tok, rq_body = body\<rparr>;
               c2 = c1\<lparr>sent := sent c1 @ [rq]\<rparr>
           in case remote c1 (length (sent c1)) rq of
                NoReply \<Rightarrow> (c2, Inl TransportError)
              | Reply st pl \<Rightarrow> (c2, Inr (st, pl))))"

text \<open>
  Modelled from the spec: the authentication-failure signal of 4.3, a 4xx status with
  the service's marker.
\<close>

definition auth_failure :: "(nat \<Rightarrow> payload \<Rightarrow> bool) \<Rightarrow> nat \<Rightarrow> payload \<Rightarrow> bool" where
  "auth_failure marker st pl \<longleftrightarrow> 400 \<le> st \<and> st < 500 \<and> marker st pl"

text \<open>
  Modelled from the spec: \<^verbatim>\<open>Decode(status, body, expectedShape) -> (value, error)\<close>
  of the Response Decoder (4.3). The expected shape is the unmarshaller of the response
  struct together with the value it fills. A 2xx body that parses as the shape is the
  decoded value, whatever the statuses of its items say; a 2xx body that does not is
  \<open>ProtocolError\<close>; a 4xx with the marker is \<open>AuthError\<close>; another 4xx is
  \<open>NotFoundError\<close> for status 404 and \<open>ValidationError\<close> otherwise; a 5xx is
  \<open>ServerError\<close>; any other status is of the kind unknown.
\<close>

definition Decode ::
  "(nat \<Rightarrow> payload \<Rightarrow> bool) \<Rightarrow> nat \<Rightarrow> payload \<Rightarrow> (json \<Rightarrow> 'r \<Rightarrow> 'r option) \<Rightarrow> 'r \<Rightarrow> error + 'r" where
  "Decode marker st pl shape out =
     (if 200 \<le> st \<and> st < 300 then
        (case pl of
           NotJSON raw \<Rightarrow> Inl ProtocolError
         | JSON j \<Rightarrow> (case shape j out of None \<Rightarrow> Inl ProtocolError | Some v \<Rightarrow> Inr v))
      else if 400 \<le> st \<and> st < 500 then
        (if auth_failure marker st pl then Inl AuthError
         else if st = 404 then Inl (NotFoundError st pl)
         else Inl (ValidationError st pl))
      else if 500 \<le> st \<and> st < 600 then Inl (ServerError st pl)
      else Inl (UnknownError st pl))"

text \<open>
  Modelled from the spec: the last step of a call: an error leaves the response value
  as it was, a decoded value replaces it.
\<close>

definition deliver :: "Client \<Rightarrow> 'r \<Rightarrow> error + 'r \<Rightarrow> Client \<times> 'r \<times> error option" where
  "deliver c out res = (case res of Inl e \<Rightarrow> (c, out, Some e) | Inr v \<Rightarrow> (c, v, None))"

text \<open>
  Modelled from the spec: \<^verbatim>\<open>Execute\<close> of the Request Executor (4.2), the method
  \<^verbatim>\<open>c.do\<close> of the client. Steps 1 to 4 are run; when the response signals an
  authentication failure the token of the name is invalidated and steps 1 to 4 are run
  once more, and the outcome of that second run is final: a second authentication
  failure is \<open>AuthError\<close>, and the token the service has just rejected is dropped
  from the cache as well (section 3: a token is evicted the moment the server rejects
  it). In every other case the response is decoded per 4.3.
\<close>

definition Execute :: "(Client, 'r, error) executor" where
  "Execute c name method path body shape out =
     (case attempt c name method path body of
        (c1, Inl e) \<Rightarrow> (c1, out, Some e)
      | (c1, Inr (st, pl)) \<Rightarrow>
          if auth_failure (auth_marker c1) st pl then
            (case attempt (Invalidate c1 name) name method path body of
               (c2, Inl e) \<Rightarrow> (c2, out, Some e)
             | (c2, Inr (st', pl')) \<Rightarrow>
                 if auth_failure (auth_marker c2) st' pl' then
                   (Invalidate c2 name, out, Some AuthError)
                 else deliver c2 out (Decode (auth_marker c2) st' pl' shape out))
          else deliver c1 out (Decode (auth_marker c1) st pl shape out))"

subsection \<open>Test doubles\<close>

text \<open>
  The configuration \<^verbatim>\<open>"acme"\<close> of the specification's scenarios: valid credentials,
  no session yet, a service that grants the token \<^verbatim>\<open>"T1"\<close> to the first
  handshake for these credentials, \<^verbatim>\<open>"T2"\<close> to the second and \<^verbatim>\<open>"T3"\<close> to every
  later one, that marks an expired session by status 401, and whose answers to
  operation requests are the parameter.
\<close>

fun token_of :: "nat \<Rightarrow> Token" where
  "token_of 0 = ''T1''"
| "token_of (Suc 0) = ''T2''"
| "token_of (Suc (Suc n)) = ''T3''"

definition acme :: "(nat \<Rightarrow> Request \<Rightarrow> reply) \<Rightarrow> Client" where
  "acme answers =
     \<lparr>store_up = True,
      credentials = [''acme'' \<mapsto> ''consumer-secret''],
      sessions = Map.empty,
      handshake = (\<lambda>n cr. if cr = ''consumer-secret'' then Granted (token_of n) else Rejected),
      remote = answers,
      auth_marker = (\<lambda>st pl. st = 401),
      handshakes = 0,
      sent = []\<rparr>"

text \<open>
  The same configuration with the token \<^verbatim>\<open>"T0"\<close> of an earlier session cached
  and the credential store unavailable.
\<close>

definition acme_store_down :: "(nat \<Rightarrow> Request \<Rightarrow> reply) \<Rightarrow> Client" where
  "acme_store_down answers =
     (acme answers)\<lparr>store_up := False, sessions := [''acme'' \<mapsto> ''T0'']\<rparr>"

text \<open>The batch result of the specification's scenario, one device failing.\<close>

definition partial_success :: json where
  "partial_success =
     JObject [(''profile_uuid'', JString ''P1''),
              (''devices'', JObject [(''S1'', JString ''SUCCESS''),
                                     (''S2'', JString ''NOT_ACCESSIBLE'')])]"

section \<open>Properties of the marshalled payloads\<close>

lemma in_keys_field_string:
  "k' \<in> fst ` set (field_string k s) \<longleftrightarrow> k' = k"
  by (simp add: field_string_def)

lemma in_keys_field_bool:
  "k' \<in> fst ` set (field_bool k b) \<longleftrightarrow> k' = k"
  by (simp add: field_bool_def)

lemma in_keys_omitempty_bool:
  "k' \<in> fst ` set (omitempty_bool k b) \<longleftrightarrow> k' = k \<and> b"
  by (auto simp: omitempty_bool_def)

lemma in_keys_omitempty_string:
  "k' \<in> fst ` set (omitempty_string k s) \<longleftrightarrow> k' = k \<and> s \<noteq> []"
  by (auto simp: omitempty_string_def)

lemma in_keys_omitempty_strings:
  "k' \<in> fst ` set (omitempty_strings k xs) \<longleftrightarrow> k' = k \<and> slice_len xs \<noteq> 0"
  by (auto simp: omitempty_strings_def)

lemmas in_keys =
  in_keys_field_string in_keys_field_bool in_keys_omitempty_bool in_keys_omitempty_string
  in_keys_omitempty_strings

lemma lookup_field_string:
  "map_of (field_string k s) k' = (if k' = k then Some (JString s) else None)"
  by (simp add: field_string_def)

lemma lookup_field_bool:
  "map_of (field_bool k b) k' = (if k' = k then Some (JBool b) else None)"
  by (simp add: field_bool_def)

lemma lookup_other_omitempty_bool:
  "k' \<noteq> k \<Longrightarrow> map_of (omitempty_bool k b) k' = None"
  by (simp add: omitempty_bool_def)

lemma lookup_other_omitempty_string:
  "k' \<noteq> k \<Longrightarrow> map_of (omitempty_string k s) k' = None"
  by (simp add: omitempty_string_def)

lemma lookup_other_omitempty_strings:
  "k' \<noteq> k \<Longrightarrow> map_of (omitempty_strings k xs) k' = None"
  by (simp add: omitempty_strings_def)

lemmas lookups =
  lookup_field_string lookup_field_bool lookup_other_omitempty_bool
  lookup_other_omitempty_string lookup_other_omitempty_strings

lemma Profile_key_iff:
  "k \<in> set (object_keys (marshal_Profile p)) \<longleftrightarrow> k \<in> fst ` set (Profile_members p)"
  by (simp add: object_keys_def marshal_Profile_def)

lemma Profile_fields_always_written:
  "object_field (marshal_Profile p) ''profile_name'' = Some (JString (ProfileName p))"
  "object_field (marshal_Profile p) ''url'' = Some (JString (URL p))"
  "object_field (marshal_Profile p) ''org_magic'' = Some (JString (OrgMagic p))"
  "object_field (marshal_Profile p) ''is_mdm_removable'' = Some (JBool (IsMDMRemovable p))"
  unfolding object_field_def marshal_Profile_def Profile_members_def
  by (simp_all add: map_add_def lookups)

lemma Profile_zero_marshalled:
  "marshal_Profile Profile_zero =
     JObject [(''profile_name'', JString []), (''url'', JString []),
              (''is_mdm_removable'', JBool False), (''org_magic'', JString [])]"
  by (simp add: marshal_Profile_def Profile_members_def Profile_zero_def field_string_def
      field_bool_def omitempty_bool_def omitempty_string_def omitempty_strings_def slice_len_def)

lemma Profile_omitempty_bools:
  "''allow_pairing'' \<in> set (object_keys (marshal_Profile p)) \<longleftrightarrow> AllowPairing p"
  "''is_supervised'' \<in> set (object_keys (marshal_Profile p)) \<longleftrightarrow> IsSupervised p"
  "''is_multi_user'' \<in> set (object_keys (marshal_Profile p)) \<longleftrightarrow> IsMultiUser p"
  "''is_mandatory'' \<in> set (object_keys (marshal_Profile p)) \<longleftrightarrow> IsMandatory p"
  "''await_device_configured'' \<in> set (object_keys (marshal_Profile p)) \<longleftrightarrow>
     AwaitDeviceConfigured p"
  "''auto_advance_setup'' \<in> set (object_keys (marshal_Profile p)) \<longleftrightarrow> AutoAdvanceSetup p"
  unfolding Profile_key_iff Profile_members_def
  by (simp_all add: image_Un in_keys)

lemma Profile_omitempty_strings:
  "''support_phone_number'' \<in> set (object_keys (marshal_Profile p)) \<longleftrightarrow>
     SupportPhoneNumber p \<noteq> []"
  "''support_email_address'' \<in> set (object_keys (marshal_Profile p)) \<longleftrightarrow>
     SupportEmailAddress p \<noteq> []"
  "''department'' \<in> set (object_keys (marshal_Profile p)) \<longleftrightarrow> Department p \<noteq> []"
  "''language'' \<in> set (object_keys (marshal_Profile p)) \<longleftrightarrow> Language p \<noteq> []"
  "''region'' \<in> set (object_keys (marshal_Profile p)) \<longleftrightarrow> Region p \<noteq> []"
  "''configuration_web_url'' \<in> set (object_keys (marshal_Profile p)) \<longleftrightarrow>
     ConfigurationWebURL p \<noteq> []"
  "''profile_uuid'' \<in> set (object_keys (marshal_Profile p)) \<longleftrightarrow> ProfileUUID p \<noteq> []"
  unfolding Profile_key_iff Profile_members_def
  by (simp_all add: image_Un in_keys)

lemma Profile_omitempty_slices:
  "''anchor_certs'' \<in> set (object_keys (marshal_Profile p)) \<longleftrightarrow>
     slice_len (AnchorCerts p) \<noteq> 0"
  "''supervising_host_certs'' \<in> set (object_keys (marshal_Profile p)) \<longleftrightarrow>
     slice_len (SupervisingHostCerts p) \<noteq> 0"
  "''devices'' \<in> set (object_keys (marshal_Profile p)) \<longleftrightarrow> slice_len (Devices p) \<noteq> 0"
  "''skip_setup_items'' \<in> set (object_keys (marshal_Profile p)) \<longleftrightarrow>
     slice_len (SkipSetupItems p) \<noteq> 0"
  unfolding Profile_key_iff Profile_members_def
  by (simp_all add: image_Un in_keys)

text \<open>
  Claim C10. For every \<^verbatim>\<open>Profile\<close>, the marshalled object has the members
  \<^verbatim>\<open>profile_name\<close>, \<^verbatim>\<open>url\<close>, \<^verbatim>\<open>org_magic\<close> and \<^verbatim>\<open>is_mdm_removable\<close> with the
  values of the fields, also when these are zero: a profile whose \<^verbatim>\<open>IsMDMRemovable\<close>
  is false is written with \<^verbatim>\<open>"is_mdm_removable":false\<close>, and the zero profile is
  written as exactly these four members. Each of the seventeen fields tagged
  \<^verbatim>\<open>omitempty\<close> has its member in the object exactly when it is not zero (true, a
  non-empty string, a slice of positive length).
\<close>

theorem Profile_marshal_keys:
  "object_field (marshal_Profile p) ''profile_name'' = Some (JString (ProfileName p)) \<and>
   object_field (marshal_Profile p) ''url'' = Some (JString (URL p)) \<and>
   object_field (marshal_Profile p) ''org_magic'' = Some (JString (OrgMagic p)) \<and>
   object_field (marshal_Profile p) ''is_mdm_removable'' = Some (JBool (IsMDMRemovable p)) \<and>
   object_field (marshal_Profile (p\<lparr>IsMDMRemovable := False\<rparr>)) ''is_mdm_removable'' =
     Some (JBool False) \<and>
   marshal_Profile Profile_zero =
     JObject [(''profile_name'', JString []), (''url'', JString []),
              (''is_mdm_removable'', JBool False), (''org_magic'', JString [])] \<and>
   (''allow_pairing'' \<in> set (object_keys (marshal_Profile p))) = AllowPairing p \<and>
   (''is_supervised'' \<in> set (object_keys (marshal_Profile p))) = IsSupervised p \<and>
   (''is_multi_user'' \<in> set (object_keys (marshal_Profile p))) = IsMultiUser p \<and>
   (''is_mandatory'' \<in> set (object_keys (marshal_Profile p))) = IsMandatory p \<and>
   (''await_device_configured'' \<in> set (object_keys (marshal_Profile p))) =
     AwaitDeviceConfigured p \<and>
   (''auto_advance_setup'' \<in> set (object_keys (marshal_Profile p))) = AutoAdvanceSetup p \<and>
   (''support_phone_number'' \<in> set (object_keys (marshal_Profile p))) =
     (SupportPhoneNumber p \<noteq> []) \<and>
   (''support_email_address'' \<in> set (object_keys (marshal_Profile p))) =
     (SupportEmailAddress p \<noteq> []) \<and>
   (''department'' \<in> set (object_keys (marshal_Profile p))) = (Department p \<noteq> []) \<and>
   (''language'' \<in> set (object_keys (marshal_Profile p))) = (Language p \<noteq> []) \<and>
   (''region'' \<in> set (object_keys (marshal_Profile p))) = (Region p \<noteq> []) \<and>
   (''configuration_web_url'' \<in> set (object_keys (marshal_Profile p))) =
     (ConfigurationWebURL p \<noteq> []) \<and>
   (''profile_uuid'' \<in> set (object_keys (marshal_Profile p))) = (ProfileUUID p \<noteq> []) \<and>
   (''anchor_certs'' \<in> set (object_keys (marshal_Profile p))) =
     (slice_len (AnchorCerts p) \<noteq> 0) \<and>
   (''supervising_host_certs'' \<in> set (object_keys (marshal_Profile p))) =
     (slice_len (SupervisingHostCerts p) \<noteq> 0) \<and>
   (''devices'' \<in> set (object_keys (marshal_Profile p))) = (slice_len (Devices p) \<noteq> 0) \<and>
   (''skip_setup_items'' \<in> set (object_keys (marshal_Profile p))) =
     (slice_len (SkipSetupItems p) \<noteq> 0)"
proof -
  have removable: "object_field (marshal_Profile (p\<lparr>IsMDMRemovable := False\<rparr>))
      ''is_mdm_removable'' = Some (JBool False)"
    by (simp add: Profile_fields_always_written)
  show ?thesis
    unfolding removable
    by (simp only: Profile_fields_always_written Profile_zero_marshalled
        Profile_omitempty_bools Profile_omitempty_strings Profile_omitempty_slices simp_thms)
qed

section \<open>Properties of the three operations, for every executor\<close>

lemma calls_spy:
  "calls (case spy do (c, log) name method path body shape out of
            (c', r, e) \<Rightarrow> (c', f r, e)) =
     log @ [\<lparr>call_name = name, call_method = method, call_path = path, call_body = body\<rparr>]"
  by (simp add: calls_def spy_def split: prod.splits)

lemma AssignProfile_calls:
  "calls (AssignProfile (spy do) (c, log) name uuid serials) =
     log @ [\<lparr>call_name = name, call_method = ''PUT'', call_path = ''/profile/devices'',
             call_body = Some (JObject [(''profile_uuid'', JString uuid),
                                        (''devices'', marshal_strings serials)])\<rparr>]"
  by (simp add: AssignProfile_def calls_spy MethodPut_def marshal_AssignProfile_req_def
      field_string_def field_strings_def)

lemma DefineProfile_calls:
  "calls (DefineProfile (spy do) (c, log) name profile) =
     log @ [\<lparr>call_name = name, call_method = ''POST'', call_path = ''/profile'',
             call_body = Some (marshal_Profile_ptr profile)\<rparr>]"
  by (simp add: DefineProfile_def calls_spy MethodPost_def)

lemma RemoveProfile_calls:
  "calls (RemoveProfile (spy do) (c, log) name devices) =
     log @ [\<lparr>call_name = name, call_method = ''DELETE'', call_path = ''/profile/devices'',
             call_body = Some (JObject [(''devices'', marshal_strings devices)])\<rparr>]"
  by (simp add: RemoveProfile_def calls_spy MethodDelete_def marshal_RemoveProfile_req_def
      field_strings_def)

text \<open>
  Claim C2. For every executor, client, configuration name, profile UUID and serial
  list, \<^verbatim>\<open>AssignProfile\<close> makes exactly one call to the executor, for the given
  configuration name, and that call carries the verb \<^verbatim>\<open>PUT\<close> and the path
  \<^verbatim>\<open>/profile/devices\<close>; the verb \<^verbatim>\<open>POST\<close> of the current API documentation is the
  verb of none of its calls.
\<close>

theorem AssignProfile_issues_PUT:
  "map (\<lambda>k. (call_name k, call_method k, call_path k))
       (calls (AssignProfile (spy do) (c, []) name uuid serials)) =
     [(name, ''PUT'', ''/profile/devices'')] \<and>
   MethodPost \<notin> call_method ` set (calls (AssignProfile (spy do) (c, []) name uuid serials))"
  by (simp add: AssignProfile_calls MethodPost_def)

text \<open>
  Claim C3, as amended. The verb of the assign-profile operation is the constant
  \<^verbatim>\<open>http.MethodPut\<close> written in the code of \<^verbatim>\<open>AssignProfile\<close>: whatever the
  executor, the client and its deployment data, and the arguments are, the operation
  calls the executor with \<^verbatim>\<open>PUT\<close>, so two calls of the operation never differ in
  their verb.
\<close>

theorem AssignProfile_verb_is_fixed_in_code:
  "map call_method (calls (AssignProfile (spy do) (c, []) name uuid serials)) = [MethodPut] \<and>
   map call_method (calls (AssignProfile (spy do') (c', []) name' uuid' serials')) =
   map call_method (calls (AssignProfile (spy do) (c, []) name uuid serials))"
  by (simp add: AssignProfile_calls MethodPut_def)

text \<open>
  Claim C3, as stated, fails. A client whose deployment data is a table of verbs per
  path that asks for \<^verbatim>\<open>POST\<close> on \<^verbatim>\<open>/profile/devices\<close> still has its call made with
  \<^verbatim>\<open>PUT\<close>; and no executor, pair of clients and arguments exist for which the verb of
  the operation differs between the two clients.
\<close>

theorem AssignProfile_verb_not_configurable:
  "map call_method
     (calls (AssignProfile (spy (\<lambda>c name method path body shape out. (c, out, None :: unit option)))
        ([(''/profile/devices'', ''POST'')], []) ''acme'' ''P1'' (Some [''S1'', ''S2'']))) =
     [''PUT''] \<and>
   \<not> (\<exists>(do :: ((string \<times> string) list, ProfileResponse, unit) executor) c c' name uuid serials.
         map call_method (calls (AssignProfile (spy do) (c, []) name uuid serials)) \<noteq>
         map call_method (calls (AssignProfile (spy do) (c', []) name uuid serials)))"
  by (simp add: AssignProfile_calls)

text \<open>
  Claim C6. For every executor, client, configuration name and input,
  \<^verbatim>\<open>DefineProfile\<close> makes exactly one call, with the verb \<^verbatim>\<open>POST\<close> and the path
  \<^verbatim>\<open>/profile\<close>, and \<^verbatim>\<open>RemoveProfile\<close> makes exactly one call, with the verb
  \<^verbatim>\<open>DELETE\<close> and the path \<^verbatim>\<open>/profile/devices\<close>: the pairing does not depend on
  the arguments.
\<close>

theorem DefineProfile_RemoveProfile_verb_and_path:
  "map (\<lambda>k. (call_name k, call_method k, call_path k))
       (calls (DefineProfile (spy do) (c, []) name profile)) =
     [(name, ''POST'', ''/profile'')] \<and>
   map (\<lambda>k. (call_name k, call_method k, call_path k))
       (calls (RemoveProfile (spy do') (c', []) name' devices)) =
     [(name', ''DELETE'', ''/profile/devices'')]"
  by (simp add: DefineProfile_calls RemoveProfile_calls)

text \<open>
  Claim C8. For every executor and input, the response pointer each of the three
  operations returns is not nil, and the error it returns is the executor's: with an
  executor that fails with an error \<open>e\<close> and touches nothing, each operation returns
  the pointer to the zero response it allocated together with \<open>e\<close>.
\<close>

theorem response_pointer_never_nil:
  "fst (snd (AssignProfile do1 c1 name1 uuid serials)) \<noteq> None \<and>
   fst (snd (DefineProfile do2 c2 name2 profile)) \<noteq> None \<and>
   fst (snd (RemoveProfile do3 c3 name3 devices)) \<noteq> None \<and>
   snd (snd (AssignProfile do1 c1 name1 uuid serials)) =
     snd (snd (do1 c1 name1 MethodPut ''/profile/devices''
       (Some (marshal_AssignProfile_req \<lparr>req_ProfileUUID = uuid, req_Devices = serials\<rparr>))
       unmarshal_ProfileResponse ProfileResponse_zero)) \<and>
   snd (snd (DefineProfile do2 c2 name2 profile)) =
     snd (snd (do2 c2 name2 MethodPost ''/profile'' (Some (marshal_Profile_ptr profile))
       unmarshal_DefineProfileResponse DefineProfileResponse_zero)) \<and>
   snd (snd (RemoveProfile do3 c3 name3 devices)) =
     snd (snd (do3 c3 name3 MethodDelete ''/profile/devices''
       (Some (marshal_RemoveProfile_req \<lparr>rm_Devices = devices\<rparr>))
       unmarshal_ClearProfileResponse ClearProfileResponse_zero)) \<and>
   AssignProfile (\<lambda>c name method path body shape out. (c, out, Some e)) c name uuid serials =
     (c, Some ProfileResponse_zero, Some e) \<and>
   DefineProfile (\<lambda>c name method path body shape out. (c, out, Some e)) c name profile =
     (c, Some DefineProfileResponse_zero, Some e) \<and>
   RemoveProfile (\<lambda>c name method path body shape out. (c, out, Some e)) c name devices =
     (c, Some ClearProfileResponse_zero, Some e)"
proof -
  have assign_ptr: "fst (snd (AssignProfile do1 c1 name1 uuid serials)) \<noteq> None"
    by (simp add: AssignProfile_def split: prod.splits)
  have define_ptr: "fst (snd (DefineProfile do2 c2 name2 profile)) \<noteq> None"
    by (simp add: DefineProfile_def split: prod.splits)
  have remove_ptr: "fst (snd (RemoveProfile do3 c3 name3 devices)) \<noteq> None"
    by (simp add: RemoveProfile_def split: prod.splits)
  have errors:
    "snd (snd (AssignProfile do1 c1 name1 uuid serials)) =
       snd (snd (do1 c1 name1 MethodPut ''/profile/devices''
         (Some (marshal_AssignProfile_req \<lparr>req_ProfileUUID = uuid, req_Devices = serials\<rparr>))
         unmarshal_ProfileResponse ProfileResponse_zero))"
    "snd (snd (DefineProfile do2 c2 name2 profile)) =
       snd (snd (do2 c2 name2 MethodPost ''/profile'' (Some (marshal_Profile_ptr profile))
         unmarshal_DefineProfileResponse DefineProfileResponse_zero))"
    "snd (snd (RemoveProfile do3 c3 name3 devices)) =
       snd (snd (do3 c3 name3 MethodDelete ''/profile/devices''
         (Some (marshal_RemoveProfile_req \<lparr>rm_Devices = devices\<rparr>))
         unmarshal_ClearProfileResponse ClearProfileResponse_zero))"
    by (simp_all add: AssignProfile_def DefineProfile_def RemoveProfile_def split: prod.splits)
  have failing:
    "AssignProfile (\<lambda>c name method path body shape out. (c, out, Some e)) c name uuid serials =
       (c, Some ProfileResponse_zero, Some e)"
    "DefineProfile (\<lambda>c name method path body shape out. (c, out, Some e)) c name profile =
       (c, Some DefineProfileResponse_zero, Some e)"
    "RemoveProfile (\<lambda>c name method path body shape out. (c, out, Some e)) c name devices =
       (c, Some ClearProfileResponse_zero, Some e)"
    by (simp_all add: AssignProfile_def DefineProfile_def RemoveProfile_def)
  from assign_ptr define_ptr remove_ptr errors failing show ?thesis
    by (intro conjI)
qed

text \<open>
  Claim C9. For every executor, client, configuration name and device list, the one
  call \<^verbatim>\<open>RemoveProfile\<close> makes has a body, and the body is the object with the single
  member \<^verbatim>\<open>devices\<close>, whose value is the given list as \<^verbatim>\<open>encoding/json\<close> writes
  it (an array of its strings, \<^verbatim>\<open>null\<close> for a nil slice); the object has no member
  \<^verbatim>\<open>profile_uuid\<close>.
\<close>

theorem RemoveProfile_body_is_devices_only:
  "map call_body (calls (RemoveProfile (spy do) (c, []) name devices)) =
     [Some (JObject [(''devices'',
        case devices of None \<Rightarrow> JNull | Some serials \<Rightarrow> JArray (map JString serials))])] \<and>
   map (map_option object_keys \<circ> call_body)
       (calls (RemoveProfile (spy do) (c, []) name devices)) = [Some [''devices'']] \<and>
   map (map_option (\<lambda>b. object_field b ''profile_uuid'') \<circ> call_body)
       (calls (RemoveProfile (spy do) (c, []) name devices)) = [Some None]"
  by (simp add: RemoveProfile_calls marshal_strings_def object_keys_def object_field_def)

section \<open>Properties of the executor and the decoder\<close>

lemma unmarshal_entries_strings:
  "distinct (map fst ds) \<Longrightarrow>
   unmarshal_entries (map (\<lambda>(k, v). (k, JString v)) ds) m = Some (m ++ map_of ds)"
proof (induction ds arbitrary: m)
  case Nil
  show ?case by simp
next
  case (Cons d ds)
  obtain k v where d: "d = (k, v)" by (cases d)
  from Cons.prems d have fresh: "k \<notin> dom (map_of ds)" and rest: "distinct (map fst ds)"
    by (auto simp: dom_map_of_conv_image_fst)
  have "unmarshal_entries (map (\<lambda>(k, v). (k, JString v)) (d # ds)) m =
        unmarshal_entries (map (\<lambda>(k, v). (k, JString v)) ds) (m(k \<mapsto> v))"
    by (simp add: d unmarshal_string_def)
  also have "\<dots> = Some (m(k \<mapsto> v) ++ map_of ds)"
    using rest by (rule Cons.IH)
  also have "m(k \<mapsto> v) ++ map_of ds = m ++ map_of (d # ds)"
    using fresh by (simp add: d map_add_upd_left)
  finally show ?case .
qed

lemma unmarshal_batch_result:
  assumes "distinct (map fst ds)"
  shows "unmarshal_ProfileResponse
           (JObject [(''profile_uuid'', JString u),
                     (''devices'', JObject (map (\<lambda>(k, v). (k, JString v)) ds))])
           ProfileResponse_zero =
         Some \<lparr>resp_ProfileUUID = u, resp_Devices = Some (map_of ds)\<rparr>"
  using assms
  by (simp add: unmarshal_ProfileResponse_def unmarshal_string_def unmarshal_string_map_def
      ProfileResponse_zero_def unmarshal_entries_strings)

lemma EnsureSession_frame:
  assumes "EnsureSession c name = (c1, r)"
  shows "sent c1 = sent c \<and> remote c1 = remote c \<and> auth_marker c1 = auth_marker c \<and>
         store_up c1 = store_up c \<and> credentials c1 = credentials c \<and>
         handshake c1 = handshake c"
  using assms
  by (auto simp: EnsureSession_def Let_def
      split: option.splits if_splits handshake_reply.splits)

lemma Invalidate_frame:
  "sent (Invalidate c name) = sent c"
  "remote (Invalidate c name) = remote c"
  "auth_marker (Invalidate c name) = auth_marker c"
  "store_up (Invalidate c name) = store_up c"
  "credentials (Invalidate c name) = credentials c"
  "handshake (Invalidate c name) = handshake c"
  "handshakes (Invalidate c name) = handshakes c"
  "sessions (Invalidate c name) name = None"
  by (simp_all add: Invalidate_def)

lemma attempt_reply:
  assumes "EnsureSession c name = (c1, Inr tok)"
    and "remote c (length (sent c))
           \<lparr>rq_method = method, rq_path = path, rq_token = tok, rq_body = body\<rparr> = Reply st pl"
  shows "attempt c name method path body =
           (c1\<lparr>sent := sent c @
                [\<lparr>rq_method = method, rq_path = path, rq_token = tok, rq_body = body\<rparr>]\<rparr>,
            Inr (st, pl))"
  using assms EnsureSession_frame [OF assms(1)]
  by (simp add: attempt_def Let_def)

lemma acme_session:
  "EnsureSession (acme answers) ''acme'' =
     ((acme answers)\<lparr>handshakes := Suc 0, sessions := [''acme'' \<mapsto> ''T1'']\<rparr>, Inr ''T1'')"
  by (simp add: EnsureSession_def acme_def)

text \<open>
  Claim C1. Let a call of \<^verbatim>\<open>AssignProfile\<close> obtain a session, and let the service
  answer its request with a 2xx status and a batch result: an object with the profile
  UUID and, under \<^verbatim>\<open>devices\<close>, one status string per serial (distinct serials, any
  statuses). Then the call returns the pointer to a \<^verbatim>\<open>ProfileResponse\<close> that holds
  the UUID and maps every serial to its status as the service wrote it, and a nil error.
\<close>

theorem AssignProfile_partial_success_passes_through:
  assumes session: "EnsureSession c name = (c1, Inr tok)"
    and reply: "remote c (length (sent c))
        \<lparr>rq_method = ''PUT'', rq_path = ''/profile/devices'', rq_token = tok,
         rq_body = Some (JObject [(''profile_uuid'', JString uuid),
                                  (''devices'', marshal_strings serials)])\<rparr> =
      Reply st (JSON (JObject [(''profile_uuid'', JString u),
                  (''devices'', JObject (map (\<lambda>(serial, status). (serial, JString status)) ds))]))"
    and ok: "200 \<le> st" "st < 300"
    and keys: "distinct (map fst ds)"
  shows "snd (AssignProfile Execute c name uuid serials) =
           (Some \<lparr>resp_ProfileUUID = u, resp_Devices = Some (map_of ds)\<rparr>, None)"
proof -
  let ?body = "Some (JObject [(''profile_uuid'', JString uuid),
                              (''devices'', marshal_strings serials)])"
  let ?doc = "JObject [(''profile_uuid'', JString u),
                (''devices'', JObject (map (\<lambda>(serial, status). (serial, JString status)) ds))]"
  have sent_once: "attempt c name ''PUT'' ''/profile/devices'' ?body =
      (c1\<lparr>sent := sent c @ [\<lparr>rq_method = ''PUT'', rq_path = ''/profile/devices'',
                               rq_token = tok, rq_body = ?body\<rparr>]\<rparr>,
       Inr (st, JSON ?doc))"
    using session reply by (rule attempt_reply)
  have no_auth: "\<not> auth_failure marker st pl" for marker pl
    using ok by (simp add: auth_failure_def)
  have decoded: "Decode marker st (JSON ?doc) unmarshal_ProfileResponse ProfileResponse_zero =
      Inr \<lparr>resp_ProfileUUID = u, resp_Devices = Some (map_of ds)\<rparr>" for marker
    using ok keys by (simp add: Decode_def unmarshal_batch_result)
  show ?thesis
    by (simp add: AssignProfile_def Execute_def MethodPut_def marshal_AssignProfile_req_def
        field_string_def field_strings_def sent_once no_auth decoded deliver_def)
qed

text \<open>
  The scenario of the specification: configuration \<^verbatim>\<open>"acme"\<close>, profile \<^verbatim>\<open>P1\<close>,
  serials \<^verbatim>\<open>S1\<close> and \<^verbatim>\<open>S2\<close>, the second of which the service reports as
  \<^verbatim>\<open>NOT_ACCESSIBLE\<close>.
\<close>

theorem AssignProfile_partial_success_witness:
  "snd (AssignProfile Execute (acme (\<lambda>n rq. Reply 200 (JSON partial_success))) ''acme'' ''P1''
          (Some [''S1'', ''S2''])) =
     (Some \<lparr>resp_ProfileUUID = ''P1'',
            resp_Devices = Some (map_of [(''S1'', ''SUCCESS''), (''S2'', ''NOT_ACCESSIBLE'')])\<rparr>,
      None)"
proof -
  let ?c = "acme (\<lambda>n rq. Reply 200 (JSON partial_success))"
  have reply: "remote ?c (length (sent ?c))
        \<lparr>rq_method = ''PUT'', rq_path = ''/profile/devices'', rq_token = ''T1'',
         rq_body = Some (JObject [(''profile_uuid'', JString ''P1''),
                                  (''devices'', marshal_strings (Some [''S1'', ''S2'']))])\<rparr> =
      Reply 200 (JSON (JObject [(''profile_uuid'', JString ''P1''),
                  (''devices'', JObject (map (\<lambda>(serial, status). (serial, JString status))
                      [(''S1'', ''SUCCESS''), (''S2'', ''NOT_ACCESSIBLE'')]))]))"
    by (simp add: acme_def partial_success_def)
  have keys: "distinct (map fst [(''S1'', ''SUCCESS''), (''S2'', ''NOT_ACCESSIBLE'')])"
    by simp
  show ?thesis
    by (rule AssignProfile_partial_success_passes_through [OF acme_session reply _ _ keys])
      simp_all
qed

lemma attempt_sends_at_most_one:
  assumes "attempt c name method path body = (c', r)"
  shows "length (sent c') \<le> Suc (length (sent c))"
proof (cases "EnsureSession c name")
  case (Pair c1 t)
  note frame = EnsureSession_frame [OF Pair]
  show ?thesis
  proof (cases t)
    case (Inl e)
    with assms Pair frame show ?thesis
      by (simp add: attempt_def)
  next
    case (Inr tok)
    with assms Pair frame show ?thesis
      by (auto simp: attempt_def Let_def split: reply.splits)
  qed
qed

lemma Execute_sends_at_most_two:
  "length (sent (fst (Execute c name method path body shape out))) \<le> length (sent c) + 2"
proof (cases "attempt c name method path body")
  case first: (Pair c1 r1)
  have one: "length (sent c1) \<le> Suc (length (sent c))"
    using first by (rule attempt_sends_at_most_one)
  show ?thesis
  proof (cases "attempt (Invalidate c1 name) name method path body")
    case second: (Pair c2 r2)
    have "length (sent c2) \<le> Suc (length (sent (Invalidate c1 name)))"
      using second by (rule attempt_sends_at_most_one)
    with one have two: "length (sent c2) \<le> length (sent c) + 2"
      by (simp add: Invalidate_frame)
    from one two show ?thesis
      by (auto simp: Execute_def first second deliver_def Invalidate_frame split: sum.splits)
  qed
qed

lemma Execute_reauth_granted:
  assumes session: "EnsureSession c name = (c1, Inr tok)"
    and first: "remote c (length (sent c))
        \<lparr>rq_method = method, rq_path = path, rq_token = tok, rq_body = body\<rparr> = Reply st pl"
    and expired: "auth_failure (auth_marker c) st pl"
    and store: "store_up c" "credentials c name = Some cr"
    and again: "handshake c (handshakes c1) cr = Granted tok'"
  shows "sent (fst (Execute c name method path body shape out)) =
           sent c @ [\<lparr>rq_method = method, rq_path = path, rq_token = tok, rq_body = body\<rparr>,
                     \<lparr>rq_method = method, rq_path = path, rq_token = tok', rq_body = body\<rparr>] \<and>
         handshakes (fst (Execute c name method path body shape out)) = Suc (handshakes c1) \<and>
         (\<forall>st' pl'.
            remote c (Suc (length (sent c)))
              \<lparr>rq_method = method, rq_path = path, rq_token = tok', rq_body = body\<rparr> =
              Reply st' pl' \<longrightarrow>
            (if auth_failure (auth_marker c) st' pl'
             then snd (Execute c name method path body shape out) = (out, Some AuthError) \<and>
                  sessions (fst (Execute c name method path body shape out)) name = None
             else sessions (fst (Execute c name method path body shape out)) name = Some tok'))"
proof -
  let ?rq = "\<lambda>t. \<lparr>rq_method = method, rq_path = path, rq_token = t, rq_body = body\<rparr>"
  let ?c2 = "c1\<lparr>sent := sent c @ [?rq tok]\<rparr>"
  let ?c3 = "Invalidate ?c2 name"
  let ?c4 = "?c3\<lparr>handshakes := Suc (handshakes c1), sessions := (sessions ?c3)(name \<mapsto> tok')\<rparr>"
  let ?c5 = "?c4\<lparr>sent := sent c @ [?rq tok, ?rq tok']\<rparr>"
  note frame = EnsureSession_frame [OF session]
  have first_run: "attempt c name method path body = (?c2, Inr (st, pl))"
    using session first by (rule attempt_reply)
  have new_session: "EnsureSession ?c3 name = (?c4, Inr tok')"
    using store again frame by (simp add: EnsureSession_def Invalidate_frame)
  have second_run: "attempt ?c3 name method path body =
      (case remote c (Suc (length (sent c))) (?rq tok') of
         NoReply \<Rightarrow> (?c5, Inl TransportError)
       | Reply st' pl' \<Rightarrow> (?c5, Inr (st', pl')))"
    using frame by (simp add: attempt_def new_session Invalidate_frame split: reply.splits)
  have run: "Execute c name method path body shape out =
      (case remote c (Suc (length (sent c))) (?rq tok') of
         NoReply \<Rightarrow> (?c5, out, Some TransportError)
       | Reply st' pl' \<Rightarrow>
           if auth_failure (auth_marker c) st' pl' then (Invalidate ?c5 name, out, Some AuthError)
           else deliver ?c5 out (Decode (auth_marker c) st' pl' shape out))"
    using expired frame
    by (simp add: Execute_def first_run second_run Invalidate_frame split: reply.splits)
  have requests: "sent (fst (Execute c name method path body shape out)) =
      sent c @ [?rq tok, ?rq tok']"
    by (simp add: run deliver_def Invalidate_frame split: reply.splits sum.splits)
  have count: "handshakes (fst (Execute c name method path body shape out)) =
      Suc (handshakes c1)"
    by (simp add: run deliver_def Invalidate_frame split: reply.splits sum.splits)
  have outcome: "\<forall>st' pl'. remote c (Suc (length (sent c))) (?rq tok') = Reply st' pl' \<longrightarrow>
      (if auth_failure (auth_marker c) st' pl'
       then snd (Execute c name method path body shape out) = (out, Some AuthError) \<and>
            sessions (fst (Execute c name method path body shape out)) name = None
       else sessions (fst (Execute c name method path body shape out)) name = Some tok')"
    by (simp add: run deliver_def Invalidate_frame split: sum.splits)
  from requests count outcome show ?thesis
    by (intro conjI)
qed

lemma Execute_reauth_fails:
  assumes session: "EnsureSession c name = (c1, Inr tok)"
    and first: "remote c (length (sent c))
        \<lparr>rq_method = method, rq_path = path, rq_token = tok, rq_body = body\<rparr> = Reply st pl"
    and expired: "auth_failure (auth_marker c) st pl"
    and fails: "\<not> store_up c \<and> e = StoreError \<or>
                store_up c \<and> credentials c name = None \<and> e = ConfigNotFound \<or>
                store_up c \<and> credentials c name = Some cr \<and>
                  handshake c (handshakes c1) cr = Rejected \<and> e = AuthError \<or>
                store_up c \<and> credentials c name = Some cr \<and>
                  handshake c (handshakes c1) cr = Unreachable \<and> e = TransportError"
  shows "snd (Execute c name method path body shape out) = (out, Some e) \<and>
         sent (fst (Execute c name method path body shape out)) =
           sent c @ [\<lparr>rq_method = method, rq_path = path, rq_token = tok, rq_body = body\<rparr>] \<and>
         sessions (fst (Execute c name method path body shape out)) name = None"
proof -
  let ?rq = "\<lparr>rq_method = method, rq_path = path, rq_token = tok, rq_body = body\<rparr>"
  let ?c2 = "c1\<lparr>sent := sent c @ [?rq]\<rparr>"
  let ?c3 = "Invalidate ?c2 name"
  note frame = EnsureSession_frame [OF session]
  have first_run: "attempt c name method path body = (?c2, Inr (st, pl))"
    using session first by (rule attempt_reply)
  obtain c' where no_session: "EnsureSession ?c3 name = (c', Inl e)"
    and same: "sent c' = sent ?c3" "sessions c' name = None"
    using fails frame by (auto simp: EnsureSession_def Invalidate_frame)
  have second_run: "attempt ?c3 name method path body = (c', Inl e)"
    by (simp add: attempt_def no_session)
  have run: "Execute c name method path body shape out = (c', out, Some e)"
    using expired frame by (simp add: Execute_def first_run second_run)
  show ?thesis
    by (simp add: run same Invalidate_frame)
qed

text \<open>
  Claim C4, as amended. No call of the executor sends more than two requests. Let a
  call obtain a session and send its request, and let the response signal an
  authentication failure; the cached token is then dropped and steps 1 to 4 are run
  once more. If the store is available, holds credentials for the name and the service
  grants a token to the handshake that follows, that is the one handshake more, and the
  request has been sent exactly twice, first with the old and then with the new token,
  with the same method, path and body; if the second response signals an
  authentication failure too, the call returns \<open>AuthError\<close> with the response value
  untouched and the new token is dropped as well, and otherwise the new token stays
  cached. If instead the store is unavailable, has no credentials for the name, or the
  handshake is rejected or fails on the network, the call returns \<open>StoreError\<close>,
  \<open>ConfigNotFound\<close>, \<open>AuthError\<close> or \<open>TransportError\<close>, no second request is
  sent, and no token is cached for the name.
\<close>

theorem Execute_auth_failure_outcomes:
  "length (sent (fst (Execute c name method path body shape out))) \<le> length (sent c) + 2 \<and>
   (EnsureSession c name = (c1, Inr tok) \<longrightarrow>
    remote c (length (sent c))
      \<lparr>rq_method = method, rq_path = path, rq_token = tok, rq_body = body\<rparr> = Reply st pl \<longrightarrow>
    auth_failure (auth_marker c) st pl \<longrightarrow>
      (store_up c \<longrightarrow> credentials c name = Some cr \<longrightarrow>
       handshake c (handshakes c1) cr = Granted tok' \<longrightarrow>
         sent (fst (Execute c name method path body shape out)) =
           sent c @ [\<lparr>rq_method = method, rq_path = path, rq_token = tok, rq_body = body\<rparr>,
                     \<lparr>rq_method = method, rq_path = path, rq_token = tok', rq_body = body\<rparr>] \<and>
         handshakes (fst (Execute c name method path body shape out)) = Suc (handshakes c1) \<and>
         (\<forall>st' pl'.
            remote c (Suc (length (sent c)))
              \<lparr>rq_method = method, rq_path = path, rq_token = tok', rq_body = body\<rparr> =
              Reply st' pl' \<longrightarrow>
            (if auth_failure (auth_marker c) st' pl'
             then snd (Execute c name method path body shape out) = (out, Some AuthError) \<and>
                  sessions (fst (Execute c name method path body shape out)) name = None
             else sessions (fst (Execute c name method path body shape out)) name =
                    Some tok'))) \<and>
      (\<not> store_up c \<and> e = StoreError \<or>
       store_up c \<and> credentials c name = None \<and> e = ConfigNotFound \<or>
       store_up c \<and> credentials c name = Some cr \<and>
         handshake c (handshakes c1) cr = Rejected \<and> e = AuthError \<or>
       store_up c \<and> credentials c name = Some cr \<and>
         handshake c (handshakes c1) cr = Unreachable \<and> e = TransportError \<longrightarrow>
         snd (Execute c name method path body shape out) = (out, Some e) \<and>
         sent (fst (Execute c name method path body shape out)) =
           sent c @ [\<lparr>rq_method = method, rq_path = path, rq_token = tok, rq_body = body\<rparr>] \<and>
         sessions (fst (Execute c name method path body shape out)) name = None))"
proof -
  have bound: "length (sent (fst (Execute c name method path body shape out))) \<le>
      length (sent c) + 2"
    by (rule Execute_sends_at_most_two)
  note granted = Execute_reauth_granted
    [of c name c1 tok "method" "path" body st pl cr tok' shape out]
  note failed = Execute_reauth_fails
    [of c name c1 tok "method" "path" body st pl e cr shape out]
  from bound granted failed show ?thesis
    by blast
qed

text \<open>
  Two runs against a service that answers every request for \<^verbatim>\<open>"acme"\<close> with status
  401. With the store available, two requests go out, with the tokens of the first and
  the second handshake, the call ends in \<open>AuthError\<close> and no token stays cached. With
  a cached token and the store unavailable, the one request goes out and the call ends
  in \<open>StoreError\<close>.
\<close>

theorem Execute_auth_failure_witness:
  "sent (fst (Execute (acme (\<lambda>n rq. Reply 401 (NotJSON ''expired''))) ''acme'' ''PUT''
            ''/profile/devices'' None unmarshal_ProfileResponse ProfileResponse_zero)) =
     [\<lparr>rq_method = ''PUT'', rq_path = ''/profile/devices'', rq_token = ''T1'', rq_body = None\<rparr>,
      \<lparr>rq_method = ''PUT'', rq_path = ''/profile/devices'', rq_token = ''T2'', rq_body = None\<rparr>] \<and>
   handshakes (fst (Execute (acme (\<lambda>n rq. Reply 401 (NotJSON ''expired''))) ''acme'' ''PUT''
            ''/profile/devices'' None unmarshal_ProfileResponse ProfileResponse_zero)) = 2 \<and>
   snd (Execute (acme (\<lambda>n rq. Reply 401 (NotJSON ''expired''))) ''acme'' ''PUT''
            ''/profile/devices'' None unmarshal_ProfileResponse ProfileResponse_zero) =
     (ProfileResponse_zero, Some AuthError) \<and>
   sessions (fst (Execute (acme (\<lambda>n rq. Reply 401 (NotJSON ''expired''))) ''acme'' ''PUT''
            ''/profile/devices'' None unmarshal_ProfileResponse ProfileResponse_zero))
     ''acme'' = None \<and>
   snd (Execute (acme_store_down (\<lambda>n rq. Reply 401 (NotJSON ''expired''))) ''acme'' ''PUT''
            ''/profile/devices'' None unmarshal_ProfileResponse ProfileResponse_zero) =
     (ProfileResponse_zero, Some StoreError) \<and>
   sent (fst (Execute (acme_store_down (\<lambda>n rq. Reply 401 (NotJSON ''expired''))) ''acme''
            ''PUT'' ''/profile/devices'' None unmarshal_ProfileResponse ProfileResponse_zero)) =
     [\<lparr>rq_method = ''PUT'', rq_path = ''/profile/devices'', rq_token = ''T0'', rq_body = None\<rparr>]"
proof -
  let ?answers = "\<lambda>(n::nat) (rq::Request). Reply 401 (NotJSON ''expired'')"
  let ?c = "acme ?answers"
  let ?c1 = "?c\<lparr>handshakes := Suc 0, sessions := [''acme'' \<mapsto> ''T1'']\<rparr>"
  let ?d = "acme_store_down ?answers"
  have session: "EnsureSession ?c ''acme'' = (?c1, Inr ''T1'')"
    by (rule acme_session)
  have first: "remote ?c (length (sent ?c))
      \<lparr>rq_method = ''PUT'', rq_path = ''/profile/devices'', rq_token = ''T1'', rq_body = None\<rparr> =
      Reply 401 (NotJSON ''expired'')"
    by (simp add: acme_def)
  have expired: "auth_failure (auth_marker ?c) 401 (NotJSON ''expired'')"
    by (simp add: acme_def auth_failure_def)
  have store: "store_up ?c" "credentials ?c ''acme'' = Some ''consumer-secret''"
    by (simp_all add: acme_def)
  have again: "handshake ?c (handshakes ?c1) ''consumer-secret'' = Granted ''T2''"
    by (simp add: acme_def)
  have second: "remote ?c (Suc (length (sent ?c)))
      \<lparr>rq_method = ''PUT'', rq_path = ''/profile/devices'', rq_token = ''T2'', rq_body = None\<rparr> =
      Reply 401 (NotJSON ''expired'')"
    by (simp add: acme_def)
  note up = Execute_auth_failure_outcomes
    [of ?c "''acme''" "''PUT''" "''/profile/devices''" None unmarshal_ProfileResponse
      ProfileResponse_zero ?c1 "''T1''" 401 "NotJSON ''expired''" "''consumer-secret''" "''T2''"]
  from up session first expired store again
  have granted:
    "sent (fst (Execute ?c ''acme'' ''PUT'' ''/profile/devices'' None
        unmarshal_ProfileResponse ProfileResponse_zero)) =
      sent ?c @
        [\<lparr>rq_method = ''PUT'', rq_path = ''/profile/devices'', rq_token = ''T1'',
           rq_body = None\<rparr>,
         \<lparr>rq_method = ''PUT'', rq_path = ''/profile/devices'', rq_token = ''T2'',
           rq_body = None\<rparr>]"
    "handshakes (fst (Execute ?c ''acme'' ''PUT'' ''/profile/devices'' None
        unmarshal_ProfileResponse ProfileResponse_zero)) = Suc (handshakes ?c1)"
    "\<forall>st' pl'.
       remote ?c (Suc (length (sent ?c)))
         \<lparr>rq_method = ''PUT'', rq_path = ''/profile/devices'', rq_token = ''T2'',
            rq_body = None\<rparr> = Reply st' pl' \<longrightarrow>
       (if auth_failure (auth_marker ?c) st' pl'
        then snd (Execute ?c ''acme'' ''PUT'' ''/profile/devices'' None
               unmarshal_ProfileResponse ProfileResponse_zero) =
               (ProfileResponse_zero, Some AuthError) \<and>
             sessions (fst (Execute ?c ''acme'' ''PUT'' ''/profile/devices'' None
               unmarshal_ProfileResponse ProfileResponse_zero)) ''acme'' = None
        else sessions (fst (Execute ?c ''acme'' ''PUT'' ''/profile/devices'' None
               unmarshal_ProfileResponse ProfileResponse_zero)) ''acme'' = Some ''T2'')"
    by blast+
  from granted(3) second expired
  have twice: "snd (Execute ?c ''acme'' ''PUT'' ''/profile/devices'' None
        unmarshal_ProfileResponse ProfileResponse_zero) =
        (ProfileResponse_zero, Some AuthError) \<and>
      sessions (fst (Execute ?c ''acme'' ''PUT'' ''/profile/devices'' None
        unmarshal_ProfileResponse ProfileResponse_zero)) ''acme'' = None"
    by simp
  have cached: "EnsureSession ?d ''acme'' = (?d, Inr ''T0'')"
    by (simp add: EnsureSession_def acme_store_down_def acme_def)
  have first_down: "remote ?d (length (sent ?d))
      \<lparr>rq_method = ''PUT'', rq_path = ''/profile/devices'', rq_token = ''T0'', rq_body = None\<rparr> =
      Reply 401 (NotJSON ''expired'')"
    by (simp add: acme_store_down_def acme_def)
  have expired_down: "auth_failure (auth_marker ?d) 401 (NotJSON ''expired'')"
    by (simp add: acme_store_down_def acme_def auth_failure_def)
  have down: "\<not> store_up ?d"
    by (simp add: acme_store_down_def acme_def)
  note store_down = Execute_auth_failure_outcomes
    [of ?d "''acme''" "''PUT''" "''/profile/devices''" None unmarshal_ProfileResponse
      ProfileResponse_zero ?d "''T0''" 401 "NotJSON ''expired''" "''consumer-secret''" "''T2''"
      StoreError]
  from store_down cached first_down expired_down down
  have failed:
    "snd (Execute ?d ''acme'' ''PUT'' ''/profile/devices'' None
        unmarshal_ProfileResponse ProfileResponse_zero) =
        (ProfileResponse_zero, Some StoreError)"
    "sent (fst (Execute ?d ''acme'' ''PUT'' ''/profile/devices'' None
        unmarshal_ProfileResponse ProfileResponse_zero)) =
      sent ?d @
        [\<lparr>rq_method = ''PUT'', rq_path = ''/profile/devices'', rq_token = ''T0'',
           rq_body = None\<rparr>]"
    by blast+
  from granted(1,2) twice failed show ?thesis
    by (simp add: acme_def acme_store_down_def)
qed

text \<open>
  Claim C4, as stated, fails. The configuration \<^verbatim>\<open>"acme"\<close> has a cached token and
  its credential store is unavailable; the service answers the request with status
  401, which signals an authentication failure. The executor drops the token, cannot
  authenticate again, and returns \<open>StoreError\<close>: the request has been sent once and
  is not reissued.
\<close>

theorem Execute_no_reissue_when_store_down:
  "remote (acme_store_down (\<lambda>n rq. Reply 401 (NotJSON ''expired''))) 0
     \<lparr>rq_method = ''PUT'', rq_path = ''/profile/devices'', rq_token = ''T0'', rq_body = None\<rparr> =
     Reply 401 (NotJSON ''expired'') \<and>
   auth_failure (auth_marker (acme_store_down (\<lambda>n rq. Reply 401 (NotJSON ''expired''))))
     401 (NotJSON ''expired'') \<and>
   Execute (acme_store_down (\<lambda>n rq. Reply 401 (NotJSON ''expired''))) ''acme'' ''PUT''
       ''/profile/devices'' None unmarshal_ProfileResponse ProfileResponse_zero =
     ((acme_store_down (\<lambda>n rq. Reply 401 (NotJSON ''expired'')))
        \<lparr>sessions := Map.empty,
         sent := [\<lparr>rq_method = ''PUT'', rq_path = ''/profile/devices'', rq_token = ''T0'',
                   rq_body = None\<rparr>]\<rparr>,
      ProfileResponse_zero, Some StoreError) \<and>
   length (sent (fst (Execute (acme_store_down (\<lambda>n rq. Reply 401 (NotJSON ''expired'')))
       ''acme'' ''PUT'' ''/profile/devices'' None unmarshal_ProfileResponse
       ProfileResponse_zero))) = 1"
proof -
  let ?d = "acme_store_down (\<lambda>n rq. Reply 401 (NotJSON ''expired''))"
  have run: "Execute ?d ''acme'' ''PUT'' ''/profile/devices'' None unmarshal_ProfileResponse
      ProfileResponse_zero =
    (?d\<lparr>sessions := Map.empty,
        sent := [\<lparr>rq_method = ''PUT'', rq_path = ''/profile/devices'', rq_token = ''T0'',
                  rq_body = None\<rparr>]\<rparr>,
     ProfileResponse_zero, Some StoreError)"
    by (simp add: Execute_def attempt_def EnsureSession_def Invalidate_def auth_failure_def
        acme_store_down_def acme_def)
  show ?thesis
    by (simp add: run) (simp add: acme_store_down_def acme_def auth_failure_def)
qed

text \<open>
  Claim C5. For every response with a 2xx status whose body is not a JSON document, or
  is one that does not unmarshal into the expected struct, the decoder returns
  \<open>ProtocolError\<close>: an error value, not a decoded one. A call of the executor that
  obtains a session and receives such a response returns \<open>ProtocolError\<close> with the
  response value untouched, having sent that one request only.
\<close>

theorem unparseable_2xx_is_ProtocolError:
  assumes ok: "200 \<le> st" "st < 300"
    and bad: "\<forall>j. pl = JSON j \<longrightarrow> shape j out = None"
    and session: "EnsureSession c name = (c1, Inr tok)"
    and reply: "remote c (length (sent c))
        \<lparr>rq_method = method, rq_path = path, rq_token = tok, rq_body = body\<rparr> = Reply st pl"
  shows "Decode marker st pl shape out = Inl ProtocolError \<and>
         Execute c name method path body shape out =
           (c1\<lparr>sent := sent c @
                [\<lparr>rq_method = method, rq_path = path, rq_token = tok, rq_body = body\<rparr>]\<rparr>,
            out, Some ProtocolError)"
proof -
  have decoded: "Decode m st pl shape out = Inl ProtocolError" for m
  proof (cases pl)
    case (NotJSON raw)
    with ok show ?thesis by (simp add: Decode_def)
  next
    case (JSON j)
    with bad have "shape j out = None" by simp
    with ok JSON show ?thesis by (simp add: Decode_def)
  qed
  have no_auth: "\<not> auth_failure m st pl" for m
    using ok by (simp add: auth_failure_def)
  have sent_once: "attempt c name method path body =
      (c1\<lparr>sent := sent c @
           [\<lparr>rq_method = method, rq_path = path, rq_token = tok, rq_body = body\<rparr>]\<rparr>,
       Inr (st, pl))"
    using session reply by (rule attempt_reply)
  show ?thesis
    by (simp add: decoded Execute_def sent_once no_auth deliver_def)
qed

text \<open>
  The service answers the assign-profile request for \<^verbatim>\<open>"acme"\<close> with status 200 and
  an HTML page: the call returns the zero response and \<open>ProtocolError\<close>, after one
  request.
\<close>

theorem unparseable_2xx_witness:
  "Decode (\<lambda>st pl. st = 401) 200 (NotJSON ''<html>'') unmarshal_ProfileResponse
     ProfileResponse_zero = Inl ProtocolError \<and>
   snd (Execute (acme (\<lambda>n rq. Reply 200 (NotJSON ''<html>''))) ''acme'' ''PUT''
          ''/profile/devices'' None unmarshal_ProfileResponse ProfileResponse_zero) =
     (ProfileResponse_zero, Some ProtocolError) \<and>
   length (sent (fst (Execute (acme (\<lambda>n rq. Reply 200 (NotJSON ''<html>''))) ''acme'' ''PUT''
          ''/profile/devices'' None unmarshal_ProfileResponse ProfileResponse_zero))) = 1"
proof -
  let ?c = "acme (\<lambda>n rq. Reply 200 (NotJSON ''<html>''))"
  have ok: "(200::nat) \<le> 200" "(200::nat) < 300"
    by simp_all
  have bad: "\<forall>j. NotJSON ''<html>'' = JSON j \<longrightarrow>
      unmarshal_ProfileResponse j ProfileResponse_zero = None"
    by simp
  have reply: "remote ?c (length (sent ?c))
      \<lparr>rq_method = ''PUT'', rq_path = ''/profile/devices'', rq_token = ''T1'', rq_body = None\<rparr> =
      Reply 200 (NotJSON ''<html>'')"
    by (simp add: acme_def)
  have session: "EnsureSession ?c ''acme'' =
      (?c\<lparr>handshakes := Suc 0, sessions := [''acme'' \<mapsto> ''T1'']\<rparr>, Inr ''T1'')"
    by (rule acme_session)
  note run = unparseable_2xx_is_ProtocolError
    [where shape = unmarshal_ProfileResponse and out = ProfileResponse_zero
       and marker = "\<lambda>st pl. st = 401", OF ok bad session reply]
  from run show ?thesis
    by (simp add: acme_def)
qed

end
